theory Spec2Isabelle
  imports Complex_Main "HOL-Library.Product_Lexorder" "HOL-Library.Sublist" "HOL-Library.Word"
begin

section \<open>Floating-point values\<close>

text \<open>
  The service computes with NumPy scalars (\<open>numpy.int64\<close> counters read from the CSV
  table and \<open>numpy.float64\<close> results). A float is modelled as an exact rational or one
  of the IEEE special values that NumPy produces instead of raising: a division by zero
  yields an infinity or NaN (with a warning only). Rounding error of the binary format
  and signed zeros are outside this model. The counters that enter integer arithmetic
  (\<open>stock\<close>, \<open>sales_7\<close>, \<open>sales_30\<close>) are 64-bit words read as signed: their
  addition wraps around, as that of \<open>numpy.int64\<close> does. \<open>product_id\<close> and \<open>day\<close>
  are only compared or converted and are plain integers.
\<close>

type_synonym int64 = "64 word"

datatype fval = Num rat | PosInf | NegInf | NaN

definition fint :: "int \<Rightarrow> fval" where
  "fint i = Num (of_int i)"

text \<open>The float of a 64-bit counter.\<close>

definition fword :: "int64 \<Rightarrow> fval" where
  "fword w = fint (sint w)"

fun fneg :: "fval \<Rightarrow> fval" where
  "fneg (Num a) = Num (- a)"
| "fneg PosInf = NegInf"
| "fneg NegInf = PosInf"
| "fneg NaN = NaN"

fun fadd :: "fval \<Rightarrow> fval \<Rightarrow> fval" where
  "fadd NaN y = NaN"
| "fadd x NaN = NaN"
| "fadd (Num a) (Num b) = Num (a + b)"
| "fadd PosInf NegInf = NaN"
| "fadd NegInf PosInf = NaN"
| "fadd PosInf y = PosInf"
| "fadd x PosInf = PosInf"
| "fadd NegInf y = NegInf"
| "fadd x NegInf = NegInf"

definition fsub :: "fval \<Rightarrow> fval \<Rightarrow> fval" where
  "fsub x y = fadd x (fneg y)"

text \<open>The sign of a value other than NaN: \<open>-1\<close>, \<open>0\<close> or \<open>1\<close>.\<close>

fun fsgn :: "fval \<Rightarrow> int" where
  "fsgn (Num a) = (if a < 0 then - 1 else if a = 0 then 0 else 1)"
| "fsgn PosInf = 1"
| "fsgn NegInf = - 1"
| "fsgn NaN = 0"

definition signed_inf :: "int \<Rightarrow> fval" where
  "signed_inf s = (if s = 0 then NaN else if 0 < s then PosInf else NegInf)"

fun fmul :: "fval \<Rightarrow> fval \<Rightarrow> fval" where
  "fmul NaN y = NaN"
| "fmul x NaN = NaN"
| "fmul (Num a) (Num b) = Num (a * b)"
| "fmul x y = signed_inf (fsgn x * fsgn y)"

text \<open>
  True division. A zero divisor does not raise: \<open>0 / 0\<close> is NaN and \<open>a / 0\<close> is an
  infinity with the sign of \<open>a\<close>.
\<close>

fun fdiv :: "fval \<Rightarrow> fval \<Rightarrow> fval" where
  "fdiv NaN y = NaN"
| "fdiv x NaN = NaN"
| "fdiv (Num a) (Num b) = (if b = 0 then signed_inf (fsgn (Num a)) else Num (a / b))"
| "fdiv (Num a) y = Num 0"
| "fdiv x (Num b) = signed_inf (fsgn x * (if b < 0 then - 1 else 1))"
| "fdiv x y = NaN"

text \<open>The comparison \<open>x > y\<close>; it is false whenever an operand is NaN.\<close>

fun fgt :: "fval \<Rightarrow> fval \<Rightarrow> bool" where
  "fgt NaN y = False"
| "fgt x NaN = False"
| "fgt (Num a) (Num b) = (b < a)"
| "fgt PosInf PosInf = False"
| "fgt PosInf y = True"
| "fgt x PosInf = False"
| "fgt NegInf y = False"
| "fgt x NegInf = True"

definition fle :: "fval \<Rightarrow> fval \<Rightarrow> bool" where
  "fle x y = (x \<noteq> NaN \<and> y \<noteq> NaN \<and> \<not> fgt x y)"

text \<open>\<open>numpy.maximum\<close> and \<open>numpy.minimum\<close> propagate NaN.\<close>

definition fmaximum :: "fval \<Rightarrow> fval \<Rightarrow> fval" where
  "fmaximum x y = (if x = NaN \<or> y = NaN then NaN else if fgt y x then y else x)"

definition fminimum :: "fval \<Rightarrow> fval \<Rightarrow> fval" where
  "fminimum x y = (if x = NaN \<or> y = NaN then NaN else if fgt x y then y else x)"

text \<open>\<open>numpy.clip(a, a_min, a_max)\<close> is \<open>minimum(maximum(a, a_min), a_max)\<close>.\<close>

definition clip :: "fval \<Rightarrow> fval \<Rightarrow> fval \<Rightarrow> fval" where
  "clip a a_min a_max = fminimum (fmaximum a a_min) a_max"

text \<open>
  Rounding to the nearest integer, ties to the even one, and \<open>round(x, 2)\<close>: the value
  is scaled by 100, rounded and scaled back; infinities and NaN are returned as they are.
\<close>

definition round_half_even :: "rat \<Rightarrow> int" where
  "round_half_even q =
     (let f = \<lfloor>q\<rfloor>; d = q - of_int f
      in if d < 1 / 2 then f else if 1 / 2 < d then f + 1
         else if even f then f else f + 1)"

definition round2 :: "rat \<Rightarrow> rat" where
  "round2 q = of_int (round_half_even (q * 100)) / 100"

fun fround2 :: "fval \<Rightarrow> fval" where
  "fround2 (Num a) = Num (round2 a)"
| "fround2 x = x"

section \<open>The product table\<close>

text \<open>
  One row of \<open>data/groceries.csv\<close>. The process-wide DataFrame \<open>df\<close> holds the rows in
  file order; \<open>demand_ratio_column\<close> is the column \<open>df['demand_ratio']\<close>, absent until
  something assigns it.
\<close>

record product =
  product_id :: int
  name :: string
  category :: string
  base_price :: rat
  stock :: int64
  sales_7 :: int64
  sales_30 :: int64
  day :: int

record dataframe =
  rows :: "product list"
  demand_ratio_column :: "fval list option"

text \<open>\<open>df['stock'].max()\<close>, the largest signed value: NaN for an empty column.\<close>

fun stock_max :: "product list \<Rightarrow> fval" where
  "stock_max [] = NaN"
| "stock_max (r # rs) = fint (fold max (map (\<lambda>x. sint (stock x)) rs) (sint (stock r)))"

section \<open>calculate_dynamic_price\<close>

text \<open>
  The loaded regressor and scaler are opaque functions, \<open>None\<close> when the pickle files
  were not found: \<open>scaler.transform\<close> maps the feature row to the scaled row and
  \<open>model.predict(...)[0]\<close> maps the scaled row to a price.
\<close>

type_synonym regressor = "fval list \<Rightarrow> fval"
type_synonym transform = "fval list \<Rightarrow> fval list"

record pricing =
  base_price_out :: rat
  dynamic_price :: fval
  discount_percent :: fval
  demand_level :: string
  demand_ratio_out :: fval
  stock_out :: int

definition demand_ratio :: "product \<Rightarrow> fval" where
  "demand_ratio p = fdiv (fword (sales_7 p)) (fword (stock p + 1))"

definition inventory_level :: "dataframe \<Rightarrow> product \<Rightarrow> fval" where
  "inventory_level df p = fdiv (fword (stock p)) (stock_max (rows df))"

definition sales_trend :: "product \<Rightarrow> fval" where
  "sales_trend p = fdiv (fword (sales_30 p)) (fword (sales_7 p + 1))"

definition popularity :: "product \<Rightarrow> fval" where
  "popularity p =
     fdiv (fword (sales_30 p)) (fadd (fmul (Num (base_price p)) (fword (stock p))) (fint 1))"

definition scarcity :: "product \<Rightarrow> fval" where
  "scarcity p = fdiv (fint 1) (fword (stock p + 1))"

text \<open>The row handed to the scaler on the model path.\<close>

definition features :: "dataframe \<Rightarrow> product \<Rightarrow> fval list" where
  "features df p =
     [demand_ratio p, inventory_level df p, sales_trend p, popularity p, scarcity p,
      fint (day p)]"

text \<open>\<open>predicted_price\<close> as line 86 or line 89 assigns it, before the clip.\<close>

definition predicted_price ::
  "dataframe \<Rightarrow> regressor option \<Rightarrow> transform option \<Rightarrow> product \<Rightarrow> fval" where
  "predicted_price df model scaler p =
     (case (model, scaler) of
        (Some m, Some s) \<Rightarrow> m (s (features df p))
      | _ \<Rightarrow>
          fmul (Num (base_price p))
            (fsub (fadd (fint 1) (fmul (demand_ratio p) (Num (3 / 10))))
                  (fmul (inventory_level df p) (Num (2 / 10)))))"

text \<open>\<open>predicted_price\<close> after the clip of line 92.\<close>

definition clipped_price ::
  "dataframe \<Rightarrow> regressor option \<Rightarrow> transform option \<Rightarrow> product \<Rightarrow> fval" where
  "clipped_price df model scaler p =
     clip (predicted_price df model scaler p)
       (fmul (Num (base_price p)) (Num (1 / 2)))
       (fmul (Num (base_price p)) (Num (3 / 2)))"

text \<open>
  \<open>df[df['product_id'] == product_id]\<close> keeps the matching rows in table order;
  the result is \<open>None\<close> when there is none, else the first one is priced.
\<close>

definition calculate_dynamic_price ::
  "dataframe \<Rightarrow> regressor option \<Rightarrow> transform option \<Rightarrow> int \<Rightarrow> pricing option" where
  "calculate_dynamic_price df model scaler pid =
     (case filter (\<lambda>r. product_id r = pid) (rows df) of
        [] \<Rightarrow> None
      | p # _ \<Rightarrow>
          (let clipped = clipped_price df model scaler p;
               discount =
                 fmul (fdiv (fsub clipped (Num (base_price p))) (Num (base_price p)))
                   (fint 100);
               level =
                 (if fgt (demand_ratio p) (fint 2) then ''High''
                  else if fgt (demand_ratio p) (fint 1) then ''Medium''
                  else ''Low'')
           in Some \<lparr>base_price_out = base_price p,
                    dynamic_price = fround2 clipped,
                    discount_percent = fround2 discount,
                    demand_level = level,
                    demand_ratio_out = fround2 (demand_ratio p),
                    stock_out = sint (stock p)\<rparr>))"

section \<open>The endpoints\<close>

datatype error = HTTPException nat string | TypeError

text \<open>Decimal printing of an integer, for the f-strings of the error details.\<close>

fun str_nat :: "nat \<Rightarrow> string" where
  "str_nat n =
     (if n < 10 then [char_of (48 + n)]
      else str_nat (n div 10) @ [char_of (48 + n mod 10)])"

declare str_nat.simps [simp del]

definition str_int :: "int \<Rightarrow> string" where
  "str_int i = (if i < 0 then CHR ''-'' # str_nat (nat (- i)) else str_nat (nat i))"

text \<open>
  Text is held as its UTF-8 bytes. \<open>str.lower()\<close> on a string of ASCII characters turns
  the letters \<open>A\<close> to \<open>Z\<close> into \<open>a\<close> to \<open>z\<close> and keeps every other character. On
  a string with a character beyond ASCII the result comes from the Unicode tables of the
  Python runtime, which are not part of this repository: that function on strings is
  the parameter \<open>unicode_lower\<close>.
\<close>

definition ascii :: "string \<Rightarrow> bool" where
  "ascii s = list_all (\<lambda>c. (of_char c :: nat) < 128) s"

definition lower_char :: "char \<Rightarrow> char" where
  "lower_char c =
     (let n = (of_char c :: nat) in if 65 \<le> n \<and> n \<le> 90 then char_of (n + 32) else c)"

definition lower :: "(string \<Rightarrow> string) \<Rightarrow> string \<Rightarrow> string" where
  "lower unicode_lower s = (if ascii s then map lower_char s else unicode_lower s)"

text \<open>
  Two spellings that differ only in the case of letters, said without \<open>lower\<close>: they
  have the same length, and at each position they hold the same character or the
  upper-case and the lower-case form of one letter of the alphabet \<open>A\<close> to \<open>Z\<close>.
\<close>

definition upper_letter :: "char \<Rightarrow> bool" where
  "upper_letter c = (65 \<le> (of_char c :: nat) \<and> (of_char c :: nat) \<le> 90)"

definition same_letter :: "char \<Rightarrow> char \<Rightarrow> bool" where
  "same_letter a b =
     (a = b
      \<or> upper_letter a \<and> (of_char b :: nat) = of_char a + 32
      \<or> upper_letter b \<and> (of_char a :: nat) = of_char b + 32)"

definition casings :: "string \<Rightarrow> string \<Rightarrow> bool" where
  "casings s t = list_all2 same_letter s t"

record product_response =
  product_id_r :: int
  name_r :: string
  category_r :: string
  base_price_r :: rat
  dynamic_price_r :: fval
  discount_percent_r :: fval
  demand_level_r :: string
  demand_ratio_r :: fval
  stock_r :: int
  sales_7_days :: int
  sales_30_days :: int

definition get_product ::
  "dataframe \<Rightarrow> regressor option \<Rightarrow> transform option \<Rightarrow> int \<Rightarrow> error + product_response"
  where
  "get_product df model scaler pid =
     (case filter (\<lambda>r. product_id r = pid) (rows df) of
        [] \<Rightarrow> Inl (HTTPException 404 (''Product '' @ str_int pid @ '' not found''))
      | p # _ \<Rightarrow>
          (case calculate_dynamic_price df model scaler pid of
             None \<Rightarrow> Inl TypeError
           | Some pr \<Rightarrow>
               Inr \<lparr>product_id_r = product_id p,
                    name_r = name p,
                    category_r = category p,
                    base_price_r = base_price_out pr,
                    dynamic_price_r = dynamic_price pr,
                    discount_percent_r = discount_percent pr,
                    demand_level_r = demand_level pr,
                    demand_ratio_r = demand_ratio_out pr,
                    stock_r = stock_out pr,
                    sales_7_days = sint (sales_7 p),
                    sales_30_days = sint (sales_30 p)\<rparr>))"

text \<open>The response model \<open>Product\<close> of the listing endpoints.\<close>

record Product =
  product_id_P :: int
  name_P :: string
  category_P :: string
  base_price_P :: rat
  stock_P :: int
  dynamic_price_P :: fval
  discount_percent_P :: fval
  demand_level_P :: string

definition get_products_by_category ::
  "dataframe \<Rightarrow> regressor option \<Rightarrow> transform option \<Rightarrow> (string \<Rightarrow> string) \<Rightarrow> string
     \<Rightarrow> error + Product list"
  where
  "get_products_by_category df model scaler unicode_lower c =
     (let products_in_category =
            filter (\<lambda>r. lower unicode_lower (category r) = lower unicode_lower c) (rows df)
      in if products_in_category = []
         then Inl (HTTPException 404 (''Category '' @ c @ '' not found''))
         else Inr (List.map_filter
                (\<lambda>row. case calculate_dynamic_price df model scaler (product_id row) of
                          None \<Rightarrow> None
                        | Some pr \<Rightarrow>
                            Some \<lparr>product_id_P = product_id row,
                                  name_P = name row,
                                  category_P = category row,
                                  base_price_P = base_price_out pr,
                                  stock_P = stock_out pr,
                                  dynamic_price_P = dynamic_price pr,
                                  discount_percent_P = discount_percent pr,
                                  demand_level_P = demand_level pr\<rparr>)
                products_in_category))"

section \<open>get_insights\<close>

text \<open>
  \<open>DataFrame.nlargest(n, column)\<close> with the default \<open>keep='first'\<close>, as pandas
  documents it: the first \<open>n\<close> rows in descending order of the column, equal values in
  table order, rows whose value is NaN after all others. \<open>desc_rank\<close> orders the values
  from the largest to the smallest; the sort is the stable insertion sort of the library.
\<close>

fun desc_rank :: "fval \<Rightarrow> int \<times> rat" where
  "desc_rank PosInf = (0, 0)"
| "desc_rank (Num a) = (1, - a)"
| "desc_rank NegInf = (2, 0)"
| "desc_rank NaN = (3, 0)"

definition nlargest :: "nat \<Rightarrow> ('a \<Rightarrow> fval) \<Rightarrow> 'a list \<Rightarrow> 'a list" where
  "nlargest n column xs = take n (sort_key (\<lambda>x. desc_rank (column x)) xs)"

text \<open>\<open>Series.mean()\<close>: NaN for an empty series.\<close>

definition mean :: "rat list \<Rightarrow> fval" where
  "mean xs = (if xs = [] then NaN else Num (sum_list xs / of_nat (length xs)))"

record top_demand_record =
  product_id_t :: int
  name_t :: string
  demand_ratio_t :: fval

record low_stock_record =
  product_id_l :: int
  name_l :: string
  stock_l :: int

record category_record =
  product_count :: nat
  base_price_c :: fval
  stock_c :: int
  sales_7_c :: int

record insights =
  total_products :: nat
  total_stock :: int
  total_sales_7days :: int
  total_sales_30days :: int
  average_price :: fval
  top_demand_products :: "top_demand_record list"
  low_stock_alerts :: "low_stock_record list"
  category_statistics :: "string \<rightharpoonup> category_record"

text \<open>
  The handler assigns \<open>df['demand_ratio']\<close> on the process-wide table before it reads
  it, so the table is threaded through: the result is the outcome and the table after the
  call. The column sums are sums of \<open>numpy.int64\<close> and wrap around. A table without
  rows has columns of dtype \<open>object\<close>, on which \<open>nlargest\<close> raises \<open>TypeError\<close>, after
  the column has been assigned.
\<close>

definition get_insights :: "dataframe \<Rightarrow> (error + insights) \<times> dataframe" where
  "get_insights df0 =
     (let df = df0\<lparr>demand_ratio_column :=
                 Some (map (\<lambda>r. fdiv (fword (sales_7 r)) (fword (stock r + 1))) (rows df0))\<rparr>;
          ratios = (case demand_ratio_column df of None \<Rightarrow> [] | Some col \<Rightarrow> col);
          top_demand =
            map (\<lambda>(r, d). \<lparr>product_id_t = product_id r, name_t = name r, demand_ratio_t = d\<rparr>)
              (nlargest 10 snd (zip (rows df) ratios));
          low_stock =
            map (\<lambda>r. \<lparr>product_id_l = product_id r, name_l = name r,
                       stock_l = sint (stock r)\<rparr>)
              (filter (\<lambda>r. sint (stock r) < 10) (rows df));
          category_stats =
            (\<lambda>c. let g = filter (\<lambda>r. category r = c) (rows df)
                 in if g = [] then None
                    else Some \<lparr>product_count = length g,
                              base_price_c = mean (map base_price g),
                              stock_c = sint (sum_list (map stock g)),
                              sales_7_c = sint (sum_list (map sales_7 g))\<rparr>)
      in if rows df = [] then (Inl TypeError, df)
         else (Inr \<lparr>total_products = length (rows df),
                    total_stock = sint (sum_list (map stock (rows df))),
                    total_sales_7days = sint (sum_list (map sales_7 (rows df))),
                    total_sales_30days = sint (sum_list (map sales_30 (rows df))),
                    average_price = fround2 (mean (map base_price (rows df))),
                    top_demand_products = top_demand,
                    low_stock_alerts = low_stock,
                    category_statistics = category_stats\<rparr>, df))"

section \<open>Example tables\<close>

text \<open>The boundary scenario: one product whose demand ratio is exactly 2.\<close>

definition boundary_df :: dataframe where
  "boundary_df =
     \<lparr>rows = [\<lparr>product_id = 1, name = ''Milk'', category = ''Dairy'', base_price = 10,
               stock = 9, sales_7 = 20, sales_30 = 20, day = 3\<rparr>],
      demand_ratio_column = None\<rparr>"

text \<open>A product whose ratio 2.004 rounds to 2.0 in the response.\<close>

definition rounding_df :: dataframe where
  "rounding_df =
     \<lparr>rows = [\<lparr>product_id = 1, name = ''Rice'', category = ''Grains'', base_price = 10,
               stock = 999, sales_7 = 2004, sales_30 = 2004, day = 3\<rparr>],
      demand_ratio_column = None\<rparr>"

text \<open>A product priced 1.004 in high demand: its price is clipped at 1.506.\<close>

definition odd_price_df :: dataframe where
  "odd_price_df =
     \<lparr>rows = [\<lparr>product_id = 1, name = ''Salt'', category = ''Spices'',
               base_price = 1004 / 1000, stock = 1, sales_7 = 10, sales_30 = 30, day = 2\<rparr>],
      demand_ratio_column = None\<rparr>"

text \<open>A table in which every product is out of stock.\<close>

definition sold_out_df :: dataframe where
  "sold_out_df =
     \<lparr>rows = [\<lparr>product_id = 1, name = ''Eggs'', category = ''Dairy'', base_price = 10,
               stock = 0, sales_7 = 0, sales_30 = 0, day = 1\<rparr>],
      demand_ratio_column = None\<rparr>"

text \<open>Three products, the first and the last with the same demand ratio 1.\<close>

definition tie_df :: dataframe where
  "tie_df =
     \<lparr>rows = [\<lparr>product_id = 1, name = ''Tea'', category = ''Drinks'', base_price = 4,
               stock = 1, sales_7 = 2, sales_30 = 9, day = 1\<rparr>,
              \<lparr>product_id = 2, name = ''Jam'', category = ''Spreads'', base_price = 3,
               stock = 0, sales_7 = 5, sales_30 = 8, day = 1\<rparr>,
              \<lparr>product_id = 3, name = ''Oil'', category = ''Pantry'', base_price = 7,
               stock = 3, sales_7 = 4, sales_30 = 6, day = 1\<rparr>],
      demand_ratio_column = None\<rparr>"

section \<open>Properties of the arithmetic\<close>

lemma floor_rat_numeral [simp]:
  "\<lfloor>numeral a / numeral b :: rat\<rfloor> = numeral a div numeral b"
  by (metis floor_divide_of_int_eq of_int_numeral)

lemma round_half_even_close: "\<bar>of_int (round_half_even q) - q\<bar> \<le> 1 / 2"
proof -
  have lo: "of_int \<lfloor>q\<rfloor> \<le> q" and hi: "q < of_int \<lfloor>q\<rfloor> + 1"
    by linarith+
  show ?thesis
    unfolding round_half_even_def Let_def using lo hi
    by (simp add: abs_le_iff)
qed

lemma round2_close: "\<bar>round2 q - q\<bar> \<le> 1 / 200"
proof -
  have "\<bar>of_int (round_half_even (q * 100)) - q * 100\<bar> \<le> 1 / 2"
    by (rule round_half_even_close)
  then show ?thesis unfolding round2_def by (simp add: abs_le_iff field_simps)
qed

lemma clip_range:
  assumes "lo \<le> hi" and "x \<noteq> NaN"
  shows "\<exists>c. clip x (Num lo) (Num hi) = Num c \<and> lo \<le> c \<and> c \<le> hi"
  using assms by (cases x) (auto simp: clip_def fmaximum_def fminimum_def)

lemma stock_max_Max:
  assumes "rs \<noteq> []"
  shows "stock_max rs = fint (Max (set (map (\<lambda>x. sint (stock x)) rs)))"
proof (cases rs)
  case Nil
  with assms show ?thesis by simp
next
  case (Cons r rs')
  have "Max (set (sint (stock r) # map (\<lambda>x. sint (stock x)) rs'))
          = fold max (map (\<lambda>x. sint (stock x)) rs') (sint (stock r))"
    by (rule Max.set_eq_fold)
  with Cons show ?thesis by simp
qed

text \<open>Adding 1 to a 64-bit counter: exact below the largest value, which wraps.\<close>

lemma sint_succ:
  fixes w :: int64
  assumes "sint w \<noteq> 9223372036854775807"
  shows "sint (w + 1) = sint w + 1"
proof -
  have "sint w < 2 ^ (LENGTH(64) - 1)" by (rule sint_lt)
  moreover have "- (2 ^ (LENGTH(64) - 1)) \<le> sint w" by (rule sint_ge)
  ultimately have "- (2 ^ 63) \<le> sint w + 1" and "sint w + 1 < 2 ^ 63"
    using assms by simp_all
  then have "signed_take_bit 63 (sint w + 1) = sint w + 1"
    by (simp add: signed_take_bit_int_eq_self)
  then show ?thesis by (simp add: sint_word_ariths)
qed

lemma sint_succ_max:
  fixes w :: int64
  assumes "sint w = 9223372036854775807"
  shows "sint (w + 1) = - 9223372036854775808"
proof -
  have "w = word_of_int (sint w)" by simp
  then have "w = 9223372036854775807" unfolding assms by simp
  then show ?thesis by simp
qed

lemma sint_range:
  fixes w :: int64
  shows "- 9223372036854775808 \<le> sint w" and "sint w \<le> 9223372036854775807"
proof -
  have "- (2 ^ (LENGTH(64) - 1)) \<le> sint w" by (rule sint_ge)
  then show "- 9223372036854775808 \<le> sint w" by simp
  have "sint w < 2 ^ (LENGTH(64) - 1)" by (rule sint_lt)
  then show "sint w \<le> 9223372036854775807" by simp
qed

lemmas evaluation =
  calculate_dynamic_price_def clipped_price_def predicted_price_def demand_ratio_def
  inventory_level_def fint_def fword_def fsub_def clip_def fmaximum_def fminimum_def round2_def
  round_half_even_def Let_def

section \<open>The price bounds\<close>

text \<open>
  C1, as stated, fails: the clip bounds the price before the response rounds it to two
  decimals. The product priced 1.004 with a predicted price above the upper bound is
  clipped to 1.506 and returned as 1.51, which exceeds \<open>1.5 * 1.004 = 1.506\<close>.
\<close>

theorem dynamic_price_bounds_counterexample:
  "map_option (\<lambda>r. (base_price_out r, dynamic_price r))
     (calculate_dynamic_price odd_price_df None None 1) = Some (251 / 250, Num (151 / 100))
   \<and> \<not> (151 / 100 \<le> 3 / 2 * (251 / 250 :: rat))"
  by (simp add: evaluation odd_price_df_def)

text \<open>
  C1, amended: for a product that is found, with a non-negative base price and a
  predicted price that is not NaN, the clipped price \<open>c\<close> lies in
  \<open>[0.5 * base_price, 1.5 * base_price]\<close>; the returned \<open>dynamic_price\<close> is \<open>c\<close>
  rounded to two decimals and so lies within 0.005 of that interval.
\<close>

theorem dynamic_price_bounds:
  assumes "filter (\<lambda>r. product_id r = pid) (rows df) = p # ps"
    and "0 \<le> base_price p"
    and "predicted_price df model scaler p \<noteq> NaN"
  shows "\<exists>c. clipped_price df model scaler p = Num c
           \<and> base_price p / 2 \<le> c \<and> c \<le> 3 * base_price p / 2
           \<and> map_option dynamic_price (calculate_dynamic_price df model scaler pid)
               = Some (Num (round2 c))
           \<and> base_price p / 2 - 1 / 200 \<le> round2 c
           \<and> round2 c \<le> 3 * base_price p / 2 + 1 / 200"
proof -
  have "base_price p * (1 / 2) \<le> base_price p * (3 / 2)"
    using assms(2) by simp
  from clip_range [OF this assms(3)]
  obtain c where c: "clipped_price df model scaler p = Num c"
    and lo: "base_price p * (1 / 2) \<le> c" and hi: "c \<le> base_price p * (3 / 2)"
    unfolding clipped_price_def by auto
  have out: "map_option dynamic_price (calculate_dynamic_price df model scaler pid)
               = Some (Num (round2 c))"
    using assms(1) c by (simp add: calculate_dynamic_price_def Let_def)
  have "\<bar>round2 c - c\<bar> \<le> 1 / 200" by (rule round2_close)
  with lo hi have "base_price p / 2 - 1 / 200 \<le> round2 c"
    and "round2 c \<le> 3 * base_price p / 2 + 1 / 200"
    by linarith+
  with c lo hi out show ?thesis by simp
qed

theorem dynamic_price_bounds_witness:
  "filter (\<lambda>r. product_id r = 1) (rows odd_price_df) = hd (rows odd_price_df) # []
   \<and> 0 \<le> base_price (hd (rows odd_price_df))
   \<and> predicted_price odd_price_df None None (hd (rows odd_price_df)) \<noteq> NaN
   \<and> (\<exists>c. clipped_price odd_price_df None None (hd (rows odd_price_df)) = Num c
           \<and> base_price (hd (rows odd_price_df)) / 2 \<le> c
           \<and> c \<le> 3 * base_price (hd (rows odd_price_df)) / 2
           \<and> map_option dynamic_price (calculate_dynamic_price odd_price_df None None 1)
               = Some (Num (round2 c))
           \<and> base_price (hd (rows odd_price_df)) / 2 - 1 / 200 \<le> round2 c
           \<and> round2 c \<le> 3 * base_price (hd (rows odd_price_df)) / 2 + 1 / 200)"
proof -
  have h1: "filter (\<lambda>r. product_id r = 1) (rows odd_price_df) = hd (rows odd_price_df) # []"
    by (simp add: odd_price_df_def)
  have h2: "0 \<le> base_price (hd (rows odd_price_df))"
    by (simp add: odd_price_df_def)
  have h3: "predicted_price odd_price_df None None (hd (rows odd_price_df)) \<noteq> NaN"
    by (simp add: evaluation odd_price_df_def)
  from dynamic_price_bounds [OF h1 h2 h3] h1 h2 h3 show ?thesis by blast
qed

section \<open>Demand classification\<close>

text \<open>
  C2: for a product that is found (with \<open>stock + 1\<close> nonzero, so that the ratio is a
  number), the demand level is High when \<open>sales_7 / (stock + 1) > 2\<close>, Medium when the
  ratio is above 1 and at most 2, and Low otherwise; with \<open>stock = 9\<close> and
  \<open>sales_7 = 20\<close> the ratio is exactly 2 and the level is Medium. The ratio of the
  statement is the one of the integers: where \<open>stock + 1\<close> wraps around both ratios are
  at most 1 and the level is Low.
\<close>

theorem demand_level_thresholds:
  assumes "filter (\<lambda>r. product_id r = pid) (rows df) = p # ps"
    and "sint (stock p) + 1 \<noteq> 0"
  shows "map_option demand_level (calculate_dynamic_price df model scaler pid)
           = Some (if 2 < rat_of_int (sint (sales_7 p)) / rat_of_int (sint (stock p) + 1)
                   then ''High''
                   else if 1 < rat_of_int (sint (sales_7 p)) / rat_of_int (sint (stock p) + 1)
                   then ''Medium''
                   else ''Low'')
         \<and> (stock p = 9 \<and> sales_7 p = 20 \<longrightarrow>
              map_option demand_level (calculate_dynamic_price df model scaler pid)
                = Some ''Medium'')"
proof -
  let ?s = "rat_of_int (sint (sales_7 p))"
  let ?level = "\<lambda>q :: rat. if 2 < q then ''High'' else if 1 < q then ''Medium'' else ''Low''"
  have out: "map_option demand_level (calculate_dynamic_price df model scaler pid)
           = Some (if fgt (demand_ratio p) (fint 2) then ''High''
                   else if fgt (demand_ratio p) (fint 1) then ''Medium'' else ''Low'')"
    using assms(1) by (simp add: calculate_dynamic_price_def Let_def)
  have "rat_of_int (- 9223372036854775808) \<le> ?s"
    and "?s \<le> rat_of_int 9223372036854775807"
    by (simp_all only: of_int_le_iff sint_range)
  then have s_lo: "- 9223372036854775808 \<le> ?s" and s_hi: "?s \<le> 9223372036854775807"
    by (simp_all only: of_int_minus of_int_numeral)
  have level: "(if fgt (demand_ratio p) (fint 2) then ''High''
                else if fgt (demand_ratio p) (fint 1) then ''Medium'' else ''Low'')
               = ?level (?s / rat_of_int (sint (stock p) + 1))"
  proof (cases "sint (stock p) = 9223372036854775807")
    case True
    then have w: "sint (stock p + 1) = - 9223372036854775808"
      by (rule sint_succ_max)
    have "demand_ratio p = Num (?s / (- 9223372036854775808))"
      by (simp add: demand_ratio_def fword_def fint_def w)
    moreover have "\<not> 1 < ?s / (- 9223372036854775808)"
      using s_lo by (simp add: field_simps)
    moreover have "\<not> 1 < ?s / rat_of_int (sint (stock p) + 1)"
      using s_hi True by (simp add: field_simps)
    ultimately show ?thesis by (simp add: fint_def)
  next
    case False
    then have w: "sint (stock p + 1) = sint (stock p) + 1"
      by (rule sint_succ)
    have "rat_of_int (sint (stock p) + 1) \<noteq> 0"
      using assms(2) by (simp only: of_int_eq_0_iff simp_thms)
    then have "demand_ratio p = Num (?s / rat_of_int (sint (stock p) + 1))"
      by (simp add: demand_ratio_def fword_def fint_def w)
    then show ?thesis by (simp add: fint_def)
  qed
  have nine: "map_option demand_level (calculate_dynamic_price df model scaler pid)
                = Some ''Medium''" if "stock p = 9 \<and> sales_7 p = 20"
    using that out by (simp add: demand_ratio_def fword_def fint_def)
  from out level nine show ?thesis by simp
qed

theorem demand_level_thresholds_witness:
  "filter (\<lambda>r. product_id r = 1) (rows boundary_df) = hd (rows boundary_df) # []
   \<and> sint (stock (hd (rows boundary_df))) + 1 \<noteq> 0
   \<and> stock (hd (rows boundary_df)) = 9 \<and> sales_7 (hd (rows boundary_df)) = 20
   \<and> base_price (hd (rows boundary_df)) = 10
   \<and> map_option demand_level (calculate_dynamic_price boundary_df None None 1)
        = Some ''Medium''"
proof -
  have h1: "filter (\<lambda>r. product_id r = 1) (rows boundary_df) = hd (rows boundary_df) # []"
    by (simp add: boundary_df_def)
  have h2: "sint (stock (hd (rows boundary_df))) + 1 \<noteq> 0"
    by (simp add: boundary_df_def)
  have h3: "stock (hd (rows boundary_df)) = 9 \<and> sales_7 (hd (rows boundary_df)) = 20
            \<and> base_price (hd (rows boundary_df)) = 10"
    by (simp add: boundary_df_def)
  from demand_level_thresholds [OF h1 h2, of None None] h1 h2 h3 show ?thesis by blast
qed

section \<open>Features and the fallback formula\<close>

text \<open>
  C3: for a row of the table whose denominators are nonzero and whose \<open>stock\<close> and
  \<open>sales_7\<close> are below the largest 64-bit value (so that \<open>+ 1\<close> does not wrap around),
  the feature row is \<open>sales_7 / (stock + 1)\<close>, \<open>stock / max stock\<close>,
  \<open>sales_30 / (sales_7 + 1)\<close>, \<open>sales_30 / (base_price * stock + 1)\<close>,
  \<open>1 / (stock + 1)\<close> and \<open>day\<close> unchanged; it is the row the scaler and the regressor
  receive.
\<close>

theorem feature_formulas:
  assumes "p \<in> set (rows df)"
    and "sint (stock p) + 1 \<noteq> 0"
    and "sint (sales_7 p) + 1 \<noteq> 0"
    and "base_price p * of_int (sint (stock p)) + 1 \<noteq> 0"
    and "Max (set (map (\<lambda>x. sint (stock x)) (rows df))) \<noteq> 0"
    and "sint (stock p) < 9223372036854775807"
    and "sint (sales_7 p) < 9223372036854775807"
  shows "features df p =
           [Num (of_int (sint (sales_7 p)) / of_int (sint (stock p) + 1)),
            Num (of_int (sint (stock p))
                 / of_int (Max (set (map (\<lambda>x. sint (stock x)) (rows df))))),
            Num (of_int (sint (sales_30 p)) / of_int (sint (sales_7 p) + 1)),
            Num (of_int (sint (sales_30 p)) / (base_price p * of_int (sint (stock p)) + 1)),
            Num (1 / of_int (sint (stock p) + 1)),
            Num (of_int (day p))]
         \<and> demand_ratio p = features df p ! 0
         \<and> inventory_level df p = features df p ! 1
         \<and> predicted_price df (Some m) (Some s) p = m (s (features df p))"
proof -
  from assms(1) have "rows df \<noteq> []" by auto
  then have mx: "stock_max (rows df)
                   = fint (Max (set (map (\<lambda>x. sint (stock x)) (rows df))))"
    by (rule stock_max_Max)
  have w1: "sint (stock p + 1) = sint (stock p) + 1"
    using assms(6) by (intro sint_succ) simp
  have w2: "sint (sales_7 p + 1) = sint (sales_7 p) + 1"
    using assms(7) by (intro sint_succ) simp
  have n1: "rat_of_int (sint (stock p) + 1) \<noteq> 0"
    using assms(2) by (simp only: of_int_eq_0_iff simp_thms)
  have n2: "rat_of_int (sint (sales_7 p) + 1) \<noteq> 0"
    using assms(3) by (simp only: of_int_eq_0_iff simp_thms)
  have n3: "rat_of_int (Max (set (map (\<lambda>x. sint (stock x)) (rows df)))) \<noteq> 0"
    using assms(5) by (simp only: of_int_eq_0_iff simp_thms)
  have dr: "demand_ratio p = Num (of_int (sint (sales_7 p)) / of_int (sint (stock p) + 1))"
    unfolding demand_ratio_def fword_def fint_def w1 using n1 by simp
  have inv: "inventory_level df p
               = Num (of_int (sint (stock p))
                      / of_int (Max (set (map (\<lambda>x. sint (stock x)) (rows df)))))"
    unfolding inventory_level_def fword_def fint_def mx using n3 by simp
  have st: "sales_trend p = Num (of_int (sint (sales_30 p)) / of_int (sint (sales_7 p) + 1))"
    unfolding sales_trend_def fword_def fint_def w2 using n2 by simp
  have po: "popularity p
              = Num (of_int (sint (sales_30 p)) / (base_price p * of_int (sint (stock p)) + 1))"
    unfolding popularity_def fword_def fint_def using assms(4) by simp
  have sc: "scarcity p = Num (1 / of_int (sint (stock p) + 1))"
    unfolding scarcity_def fword_def fint_def w1 using n1 by simp
  show ?thesis
    unfolding features_def predicted_price_def dr inv st po sc by (simp add: fint_def)
qed

theorem feature_formulas_witness:
  "hd (rows tie_df) \<in> set (rows tie_df)
   \<and> sint (stock (hd (rows tie_df))) + 1 \<noteq> 0
   \<and> sint (sales_7 (hd (rows tie_df))) + 1 \<noteq> 0
   \<and> base_price (hd (rows tie_df)) * of_int (sint (stock (hd (rows tie_df)))) + 1 \<noteq> 0
   \<and> Max (set (map (\<lambda>x. sint (stock x)) (rows tie_df))) \<noteq> 0
   \<and> sint (stock (hd (rows tie_df))) < 9223372036854775807
   \<and> sint (sales_7 (hd (rows tie_df))) < 9223372036854775807
   \<and> features tie_df (hd (rows tie_df)) =
        [Num 1, Num (1 / 3), Num 3, Num (9 / 5), Num (1 / 2), Num 1]"
proof -
  have h1: "hd (rows tie_df) \<in> set (rows tie_df)" by (simp add: tie_df_def)
  have h2: "sint (stock (hd (rows tie_df))) + 1 \<noteq> 0" by (simp add: tie_df_def)
  have h3: "sint (sales_7 (hd (rows tie_df))) + 1 \<noteq> 0" by (simp add: tie_df_def)
  have h4: "base_price (hd (rows tie_df)) * of_int (sint (stock (hd (rows tie_df)))) + 1 \<noteq> 0"
    by (simp add: tie_df_def)
  have h5: "Max (set (map (\<lambda>x. sint (stock x)) (rows tie_df))) \<noteq> 0"
    by (simp add: tie_df_def)
  have h6: "sint (stock (hd (rows tie_df))) < 9223372036854775807"
    by (simp add: tie_df_def)
  have h7: "sint (sales_7 (hd (rows tie_df))) < 9223372036854775807"
    by (simp add: tie_df_def)
  from feature_formulas [OF h1 h2 h3 h4 h5 h6 h7] h1 h2 h3 h4 h5 h6 h7 show ?thesis
    by (simp add: tie_df_def)
qed

text \<open>
  At the largest 64-bit \<open>stock\<close> the sum \<open>stock + 1\<close> wraps around to the smallest
  value, and the demand ratio is \<open>sales_7 / (- 2^63)\<close>.
\<close>

lemma demand_ratio_wraps:
  assumes "sint (stock p) = 9223372036854775807"
  shows "demand_ratio p = Num (of_int (sint (sales_7 p)) / (- 9223372036854775808))"
  unfolding demand_ratio_def fword_def fint_def sint_succ_max [OF assms] by simp

text \<open>
  C4: without a model or without a scaler, for a row of the table with nonzero
  denominators and a \<open>stock\<close> below the largest 64-bit value, the predicted price before
  the clip is \<open>base_price * (1 + 0.3 * demand_ratio - 0.2 * inventory_level)\<close>, with
  \<open>demand_ratio = sales_7 / (stock + 1)\<close> and \<open>inventory_level = stock / max stock\<close> of
  that product.
\<close>

theorem fallback_formula:
  assumes "model = None \<or> scaler = None"
    and "p \<in> set (rows df)"
    and "sint (stock p) + 1 \<noteq> 0"
    and "Max (set (map (\<lambda>x. sint (stock x)) (rows df))) \<noteq> 0"
    and "sint (stock p) < 9223372036854775807"
  shows "demand_ratio p = Num (of_int (sint (sales_7 p)) / of_int (sint (stock p) + 1))
         \<and> inventory_level df p
             = Num (of_int (sint (stock p))
                    / of_int (Max (set (map (\<lambda>x. sint (stock x)) (rows df)))))
         \<and> predicted_price df model scaler p =
             Num (base_price p *
                  (1 + 3 / 10 * (of_int (sint (sales_7 p)) / of_int (sint (stock p) + 1))
                     - 2 / 10 * (of_int (sint (stock p))
                          / of_int (Max (set (map (\<lambda>x. sint (stock x)) (rows df)))))))"
proof -
  let ?dr = "rat_of_int (sint (sales_7 p)) / rat_of_int (sint (stock p) + 1)"
  let ?inv = "rat_of_int (sint (stock p))
              / rat_of_int (Max (set (map (\<lambda>x. sint (stock x)) (rows df))))"
  from assms(2) have "rows df \<noteq> []" by auto
  then have mx: "stock_max (rows df)
                   = fint (Max (set (map (\<lambda>x. sint (stock x)) (rows df))))"
    by (rule stock_max_Max)
  have w1: "sint (stock p + 1) = sint (stock p) + 1"
    using assms(5) by (intro sint_succ) simp
  have n1: "rat_of_int (sint (stock p) + 1) \<noteq> 0"
    using assms(3) by (simp only: of_int_eq_0_iff simp_thms)
  have n3: "rat_of_int (Max (set (map (\<lambda>x. sint (stock x)) (rows df)))) \<noteq> 0"
    using assms(4) by (simp only: of_int_eq_0_iff simp_thms)
  have dr: "demand_ratio p = Num ?dr"
    unfolding demand_ratio_def fword_def fint_def w1 using n1 by simp
  have inv: "inventory_level df p = Num ?inv"
    unfolding inventory_level_def fword_def fint_def mx using n3 by simp
  have "predicted_price df model scaler p =
          fmul (Num (base_price p))
            (fsub (fadd (fint 1) (fmul (demand_ratio p) (Num (3 / 10))))
                  (fmul (inventory_level df p) (Num (2 / 10))))"
    using assms(1) by (auto simp: predicted_price_def split: option.splits)
  also have "\<dots> = Num (base_price p * (1 + ?dr * (3 / 10) - ?inv * (2 / 10)))"
    unfolding dr inv by (simp add: fint_def fsub_def)
  also have "\<dots> = Num (base_price p * (1 + 3 / 10 * ?dr - 2 / 10 * ?inv))"
    by (simp only: mult.commute)
  finally show ?thesis using dr inv by blast
qed

theorem fallback_formula_witness:
  "((None :: regressor option) = None \<or> (None :: transform option) = None)
   \<and> hd (rows tie_df) \<in> set (rows tie_df)
   \<and> sint (stock (hd (rows tie_df))) + 1 \<noteq> 0
   \<and> Max (set (map (\<lambda>x. sint (stock x)) (rows tie_df))) \<noteq> 0
   \<and> sint (stock (hd (rows tie_df))) < 9223372036854775807
   \<and> predicted_price tie_df None None (hd (rows tie_df)) = Num (74 / 15)"
proof -
  have h1: "(None :: regressor option) = None \<or> (None :: transform option) = None" by simp
  have h2: "hd (rows tie_df) \<in> set (rows tie_df)" by (simp add: tie_df_def)
  have h3: "sint (stock (hd (rows tie_df))) + 1 \<noteq> 0" by (simp add: tie_df_def)
  have h4: "Max (set (map (\<lambda>x. sint (stock x)) (rows tie_df))) \<noteq> 0"
    by (simp add: tie_df_def)
  have h5: "sint (stock (hd (rows tie_df))) < 9223372036854775807"
    by (simp add: tie_df_def)
  from fallback_formula [OF h1 h2 h3 h4 h5] h2 h3 h4 h5 show ?thesis
    by (simp add: tie_df_def)
qed

text \<open>
  The denominators that carry the \<open>+ 1\<close> offset are nonzero for non-negative counters
  and prices, also where the sum wraps around.
\<close>

lemma offset_denominators_nonzero:
  assumes "0 \<le> sint (stock p)" and "0 \<le> sint (sales_7 p)" and "0 \<le> base_price p"
  shows "sint (stock p + 1) \<noteq> 0" and "sint (sales_7 p + 1) \<noteq> 0"
    and "base_price p * of_int (sint (stock p)) + 1 \<noteq> 0"
proof -
  have succ: "sint (w + 1) \<noteq> 0" if "0 \<le> sint w" for w :: int64
  proof (cases "sint w = 9223372036854775807")
    case True
    then show ?thesis by (simp only: sint_succ_max)
  next
    case False
    then have "sint (w + 1) = sint w + 1" by (rule sint_succ)
    with that show ?thesis by simp
  qed
  show "sint (stock p + 1) \<noteq> 0" using assms(1) by (rule succ)
  show "sint (sales_7 p + 1) \<noteq> 0" using assms(2) by (rule succ)
  have "0 \<le> rat_of_int (sint (stock p))" using assms(1) by (simp only: of_int_0_le_iff)
  with assms(3) have "0 \<le> base_price p * of_int (sint (stock p))" by (rule mult_nonneg_nonneg)
  then show "base_price p * of_int (sint (stock p)) + 1 \<noteq> 0" by linarith
qed

text \<open>
  C5 at the table whose only product has \<open>stock = 0\<close>: the maximum stock is 0, the
  inventory level is \<open>0 / 0\<close>, and the NaN reaches the fallback price and the response.
\<close>

theorem inventory_level_zero_division:
  "stock_max (rows sold_out_df) = Num 0
   \<and> inventory_level sold_out_df (hd (rows sold_out_df)) = NaN
   \<and> predicted_price sold_out_df None None (hd (rows sold_out_df)) = NaN
   \<and> map_option dynamic_price (calculate_dynamic_price sold_out_df None None 1) = Some NaN"
  by (simp add: evaluation sold_out_df_def signed_inf_def)

section \<open>The rounded ratio and the demand level\<close>

text \<open>
  C10: the demand level is decided on the unrounded demand ratio, and the response
  carries the ratio rounded to two decimals. With \<open>sales_7 = 2004\<close> and \<open>stock = 999\<close>
  the ratio is 2.004: the response reports 2.0 with level High, while the product whose
  ratio is exactly 2 also reports 2.0, with level Medium.
\<close>

theorem level_uses_unrounded_ratio:
  assumes "filter (\<lambda>r. product_id r = pid) (rows df) = p # ps"
  shows "map_option (\<lambda>r. (demand_ratio_out r, demand_level r))
           (calculate_dynamic_price df model scaler pid)
         = Some (fround2 (demand_ratio p),
                 if fgt (demand_ratio p) (Num 2) then ''High''
                 else if fgt (demand_ratio p) (Num 1) then ''Medium'' else ''Low'')
         \<and> demand_ratio (hd (rows rounding_df)) = Num (2004 / 1000)
         \<and> map_option (\<lambda>r. (demand_ratio_out r, demand_level r))
             (calculate_dynamic_price rounding_df None None 1) = Some (Num 2, ''High'')
         \<and> demand_ratio (hd (rows boundary_df)) = Num 2
         \<and> map_option (\<lambda>r. (demand_ratio_out r, demand_level r))
             (calculate_dynamic_price boundary_df None None 1) = Some (Num 2, ''Medium'')"
proof -
  have "map_option (\<lambda>r. (demand_ratio_out r, demand_level r))
           (calculate_dynamic_price df model scaler pid)
         = Some (fround2 (demand_ratio p),
                 if fgt (demand_ratio p) (Num 2) then ''High''
                 else if fgt (demand_ratio p) (Num 1) then ''Medium'' else ''Low'')"
    using assms by (simp add: calculate_dynamic_price_def Let_def fint_def)
  moreover have "demand_ratio (hd (rows rounding_df)) = Num (2004 / 1000)"
    by (simp add: rounding_df_def demand_ratio_def fword_def fint_def)
  moreover have "map_option (\<lambda>r. (demand_ratio_out r, demand_level r))
             (calculate_dynamic_price rounding_df None None 1) = Some (Num 2, ''High'')"
    by (simp add: evaluation rounding_df_def)
  moreover have "demand_ratio (hd (rows boundary_df)) = Num 2"
    by (simp add: boundary_df_def demand_ratio_def fword_def fint_def)
  moreover have "map_option (\<lambda>r. (demand_ratio_out r, demand_level r))
             (calculate_dynamic_price boundary_df None None 1) = Some (Num 2, ''Medium'')"
    by (simp add: evaluation boundary_df_def)
  ultimately show ?thesis by blast
qed

theorem level_uses_unrounded_ratio_witness:
  "filter (\<lambda>r. product_id r = 1) (rows rounding_df) = hd (rows rounding_df) # []
   \<and> map_option (\<lambda>r. (demand_ratio_out r, demand_level r))
        (calculate_dynamic_price rounding_df None None 1)
      = Some (fround2 (demand_ratio (hd (rows rounding_df))),
              if fgt (demand_ratio (hd (rows rounding_df))) (Num 2) then ''High''
              else if fgt (demand_ratio (hd (rows rounding_df))) (Num 1) then ''Medium''
              else ''Low'')"
proof -
  have h1: "filter (\<lambda>r. product_id r = 1) (rows rounding_df) = hd (rows rounding_df) # []"
    by (simp add: rounding_df_def)
  from level_uses_unrounded_ratio [OF h1, of None None] h1 show ?thesis by blast
qed

section \<open>Lookups\<close>

lemmas text_evaluation =
  lower_def ascii_def lower_char_def str_int_def str_nat.simps char_of_def bit_Suc_0_iff

lemma of_char_less_256: "(of_char c :: nat) < 256"
proof -
  have "(of_char c :: nat) mod 256 = of_char c" by (rule of_char_mod_256)
  then show ?thesis by (metis mod_less_divisor zero_less_numeral)
qed

lemma char_of_inj_below: 
  fixes x y :: nat
  assumes "x < 256" and "y < 256"
  shows "char_of x = char_of y \<longleftrightarrow> x = y"
  using assms by (simp add: char_of_eq_iff take_bit_eq_mod)

lemma lower_char_eq_iff: "lower_char a = lower_char b \<longleftrightarrow> same_letter a b"
proof -
  define n m where "n = (of_char a :: nat)" and "m = (of_char b :: nat)"
  have a: "a = char_of n" and b: "b = char_of m"
    by (simp_all add: n_def m_def)
  have n: "n < 256" and m: "m < 256"
    by (simp_all add: n_def m_def of_char_less_256)
  have ofc: "(of_char (char_of k) :: nat) = k" if "k < 256" for k :: nat
    using that by simp
  show ?thesis
    unfolding lower_char_def same_letter_def upper_letter_def Let_def a b
    using n m by (auto simp: ofc char_of_inj_below)
qed

lemma map_lower_char_eq_iff: "map lower_char s = map lower_char t \<longleftrightarrow> casings s t"
proof -
  have "map lower_char s = map lower_char t
          \<longleftrightarrow> list_all2 (=) (map lower_char s) (map lower_char t)"
    by (simp only: list.rel_eq)
  also have "\<dots> \<longleftrightarrow> list_all2 (\<lambda>a b. lower_char a = lower_char b) s t"
    by (simp only: list_all2_map1 list_all2_map2)
  finally show ?thesis
    by (simp only: lower_char_eq_iff casings_def)
qed



lemma lower_eq_iff_casings:
  assumes "ascii s" and "ascii t"
  shows "lower unicode_lower s = lower unicode_lower t \<longleftrightarrow> casings s t"
  using assms by (simp add: lower_def map_lower_char_eq_iff)




text \<open>
  C9: \<open>get_product\<close> raises the 404 error exactly when no row has the product id, and
  raises nothing else; \<open>get_products_by_category\<close> raises the 404 error exactly when
  no row's category has the lower-case form of the category given, and raises nothing
  else: on ASCII text, exactly when no row's category differs from the category given
  only in the case of letters; \<open>calculate_dynamic_price\<close> returns \<open>None\<close> exactly when
  no row has the product id.
\<close>

theorem not_found_iff:
  "(get_product df model scaler pid
      = Inl (HTTPException 404 (''Product '' @ str_int pid @ '' not found''))
    \<longleftrightarrow> (\<forall>r \<in> set (rows df). product_id r \<noteq> pid))
   \<and> (\<forall>e. get_product df model scaler pid = Inl e
         \<longrightarrow> e = HTTPException 404 (''Product '' @ str_int pid @ '' not found''))
   \<and> (get_products_by_category df model scaler unicode_lower c
        = Inl (HTTPException 404 (''Category '' @ c @ '' not found''))
      \<longleftrightarrow> (\<forall>r \<in> set (rows df).
             lower unicode_lower (category r) \<noteq> lower unicode_lower c))
   \<and> (ascii c \<and> (\<forall>r \<in> set (rows df). ascii (category r))
      \<longrightarrow> (get_products_by_category df model scaler unicode_lower c
             = Inl (HTTPException 404 (''Category '' @ c @ '' not found''))
           \<longleftrightarrow> (\<forall>r \<in> set (rows df). \<not> casings (category r) c)))
   \<and> (\<forall>e. get_products_by_category df model scaler unicode_lower c = Inl e
         \<longrightarrow> e = HTTPException 404 (''Category '' @ c @ '' not found''))
   \<and> (calculate_dynamic_price df model scaler pid = None
      \<longleftrightarrow> (\<forall>r \<in> set (rows df). product_id r \<noteq> pid))"
proof -
  have f: "filter P xs = [] \<longleftrightarrow> (\<forall>x \<in> set xs. \<not> P x)" for P and xs :: "product list"
    by (simp add: filter_empty_conv)
  have c: "calculate_dynamic_price df model scaler pid = None
      \<longleftrightarrow> (\<forall>r \<in> set (rows df). product_id r \<noteq> pid)"
    unfolding f [symmetric]
    by (simp add: calculate_dynamic_price_def Let_def split: list.splits)
  have p1: "get_product df model scaler pid
      = Inl (HTTPException 404 (''Product '' @ str_int pid @ '' not found''))
    \<longleftrightarrow> (\<forall>r \<in> set (rows df). product_id r \<noteq> pid)"
    unfolding f [symmetric]
    by (auto simp: get_product_def calculate_dynamic_price_def Let_def split: list.splits)
  have p2: "\<forall>e. get_product df model scaler pid = Inl e
         \<longrightarrow> e = HTTPException 404 (''Product '' @ str_int pid @ '' not found'')"
    by (auto simp: get_product_def calculate_dynamic_price_def Let_def split: list.splits)
  have g1: "get_products_by_category df model scaler unicode_lower c
        = Inl (HTTPException 404 (''Category '' @ c @ '' not found''))
      \<longleftrightarrow> (\<forall>r \<in> set (rows df).
             lower unicode_lower (category r) \<noteq> lower unicode_lower c)"
    unfolding f [symmetric] by (simp add: get_products_by_category_def Let_def)
  have g2: "\<forall>e. get_products_by_category df model scaler unicode_lower c = Inl e
         \<longrightarrow> e = HTTPException 404 (''Category '' @ c @ '' not found'')"
    by (simp add: get_products_by_category_def Let_def)
  have g3: "get_products_by_category df model scaler unicode_lower c
             = Inl (HTTPException 404 (''Category '' @ c @ '' not found''))
           \<longleftrightarrow> (\<forall>r \<in> set (rows df). \<not> casings (category r) c)"
    if "ascii c \<and> (\<forall>r \<in> set (rows df). ascii (category r))"
  proof -
    have "lower unicode_lower (category r) = lower unicode_lower c
            \<longleftrightarrow> casings (category r) c" if "r \<in> set (rows df)" for r
      using that \<open>ascii c \<and> (\<forall>r \<in> set (rows df). ascii (category r))\<close>
      by (simp add: lower_eq_iff_casings)
    then show ?thesis unfolding g1 by blast
  qed
  from c p1 p2 g1 g2 g3 show ?thesis by blast
qed

theorem not_found_iff_witness:
  "get_product boundary_df None None 2
     = Inl (HTTPException 404 ''Product 2 not found'')
   \<and> get_products_by_category boundary_df None None id ''Bakery''
       = Inl (HTTPException 404 ''Category Bakery not found'')
   \<and> get_products_by_category boundary_df None None id ''DAIRY''
       \<noteq> Inl (HTTPException 404 ''Category DAIRY not found'')
   \<and> calculate_dynamic_price boundary_df None None 2 = None"
proof -
  have h1: "\<forall>r \<in> set (rows boundary_df). product_id r \<noteq> 2"
    by (simp add: boundary_df_def)
  have h2: "\<forall>r \<in> set (rows boundary_df). lower id (category r) \<noteq> lower id ''Bakery''"
    by (simp add: boundary_df_def text_evaluation)
  have h3: "ascii ''DAIRY'' \<and> (\<forall>r \<in> set (rows boundary_df). ascii (category r))"
    by (simp add: boundary_df_def ascii_def)
  have h4: "\<not> (\<forall>r \<in> set (rows boundary_df). \<not> casings (category r) ''DAIRY'')"
    by (simp add: boundary_df_def casings_def same_letter_def upper_letter_def)
  have s: "str_int 2 = ''2''"
    by (simp add: text_evaluation)
  from not_found_iff [of boundary_df None None 2 id "''Bakery''"] h1 h2
  have "get_product boundary_df None None 2
          = Inl (HTTPException 404 (''Product '' @ str_int 2 @ '' not found''))"
    and "get_products_by_category boundary_df None None id ''Bakery''
          = Inl (HTTPException 404 (''Category '' @ ''Bakery'' @ '' not found''))"
    and "calculate_dynamic_price boundary_df None None 2 = None"
    by blast+
  moreover from not_found_iff [of boundary_df None None 2 id "''DAIRY''"] h3 h4
  have "get_products_by_category boundary_df None None id ''DAIRY''
          \<noteq> Inl (HTTPException 404 (''Category '' @ ''DAIRY'' @ '' not found''))"
    by blast
  ultimately show ?thesis using s by simp
qed

section \<open>The table after get_insights\<close>

text \<open>
  C6, as stated, fails: the handler assigns the column \<open>demand_ratio\<close> on the
  process-wide table, so a table without that column has it after the call.
\<close>

theorem insights_read_only_counterexample:
  "demand_ratio_column boundary_df = None
   \<and> demand_ratio_column (snd (get_insights boundary_df)) = Some [Num 2]
   \<and> snd (get_insights boundary_df) \<noteq> boundary_df"
  by (simp add: get_insights_def boundary_df_def Let_def fword_def fint_def)

lemma get_insights_table:
  "snd (get_insights df) = df\<lparr>demand_ratio_column := Some (map demand_ratio (rows df))\<rparr>"
  by (simp add: get_insights_def Let_def demand_ratio_def)

lemma get_insights_payload_rows:
  "rows df1 = rows df2 \<Longrightarrow> fst (get_insights df1) = fst (get_insights df2)"
  by (simp add: get_insights_def Let_def cong: if_cong)

lemma clipped_price_rows:
  assumes "rows df1 = rows df2"
  shows "clipped_price df1 model scaler p = clipped_price df2 model scaler p"
proof -
  have i: "inventory_level df1 p = inventory_level df2 p"
    using assms by (simp add: inventory_level_def)
  then have f: "features df1 p = features df2 p"
    by (simp add: features_def)
  show ?thesis
    unfolding clipped_price_def predicted_price_def i f ..
qed

lemma calculate_dynamic_price_rows:
  assumes "rows df1 = rows df2"
  shows "calculate_dynamic_price df1 model scaler pid
           = calculate_dynamic_price df2 model scaler pid"
  unfolding calculate_dynamic_price_def clipped_price_rows [OF assms] assms ..

text \<open>
  C6, amended: the call changes nothing of the table but the column \<open>demand_ratio\<close>,
  which it sets to \<open>sales_7 / (stock + 1)\<close> of each row. The rows and their order are
  kept, a second call returns the same payload and the same table, and
  \<open>calculate_dynamic_price\<close> gives the same results on the table after the call.
\<close>

theorem insights_frame:
  "snd (get_insights df) = df\<lparr>demand_ratio_column := Some (map demand_ratio (rows df))\<rparr>
   \<and> rows (snd (get_insights df)) = rows df
   \<and> get_insights (snd (get_insights df)) = get_insights df
   \<and> calculate_dynamic_price (snd (get_insights df)) model scaler pid
       = calculate_dynamic_price df model scaler pid"
proof -
  let ?df' = "snd (get_insights df)"
  have t: "?df' = df\<lparr>demand_ratio_column := Some (map demand_ratio (rows df))\<rparr>"
    by (rule get_insights_table)
  then have r: "rows ?df' = rows df" by simp
  have "fst (get_insights ?df') = fst (get_insights df)"
    using r by (rule get_insights_payload_rows)
  moreover have "snd (get_insights ?df') = snd (get_insights df)"
    unfolding get_insights_table [of ?df'] r unfolding t by simp
  ultimately have i: "get_insights ?df' = get_insights df"
    by (simp add: prod_eq_iff)
  have "calculate_dynamic_price ?df' model scaler pid
          = calculate_dynamic_price df model scaler pid"
    using r by (rule calculate_dynamic_price_rows)
  with t r i show ?thesis by simp
qed

section \<open>The top-demand list\<close>

lemma desc_rank_inj: "desc_rank a = desc_rank b \<longleftrightarrow> a = b"
  by (cases a; cases b) auto

lemma desc_rank_le:
  assumes "a \<noteq> NaN" and "b \<noteq> NaN" and "desc_rank a \<le> desc_rank b"
  shows "fle b a"
  using assms by (cases a; cases b) (auto simp: fle_def)

lemma nlargest_length: "length (nlargest n column xs) \<le> n"
  by (simp add: nlargest_def)

lemma nlargest_set: "set (nlargest n column xs) \<subseteq> set xs"
proof -
  have "set (take n (sort_key (\<lambda>x. desc_rank (column x)) xs))
          \<subseteq> set (sort_key (\<lambda>x. desc_rank (column x)) xs)"
    by (rule set_take_subset)
  then show ?thesis by (simp add: nlargest_def)
qed

lemma nlargest_sorted:
  assumes "\<forall>x \<in> set xs. column x \<noteq> NaN"
  shows "sorted_wrt (\<lambda>a b. fle (column b) (column a)) (nlargest n column xs)"
proof -
  let ?s = "sort_key (\<lambda>x. desc_rank (column x)) xs"
  have "sorted (map (\<lambda>x. desc_rank (column x)) ?s)"
    by (rule sorted_sort_key)
  then have "sorted_wrt (\<lambda>a b. desc_rank (column a) \<le> desc_rank (column b)) ?s"
    by (simp add: sorted_wrt_map)
  then have "sorted_wrt (\<lambda>a b. fle (column b) (column a)) ?s"
  proof (rule sorted_wrt_mono_rel [rotated])
    fix a b
    assume "a \<in> set ?s" and "b \<in> set ?s"
      and "desc_rank (column a) \<le> desc_rank (column b)"
    with assms show "fle (column b) (column a)"
      by (simp add: desc_rank_le)
  qed
  then show ?thesis
    unfolding nlargest_def by (rule sorted_wrt_take)
qed

lemma nlargest_ties:
  "prefix (filter (\<lambda>x. column x = k) (nlargest n column xs))
          (filter (\<lambda>x. column x = k) xs)"
proof -
  let ?f = "\<lambda>x. desc_rank (column x)"
  have "prefix (take n (sort_key ?f xs)) (sort_key ?f xs)"
    by (rule take_is_prefix)
  then have "prefix (filter (\<lambda>x. ?f x = desc_rank k) (take n (sort_key ?f xs)))
                    (filter (\<lambda>x. ?f x = desc_rank k) (sort_key ?f xs))"
    by (rule filter_mono_prefix)
  also have "filter (\<lambda>x. ?f x = desc_rank k) (sort_key ?f xs)
               = filter (\<lambda>x. ?f x = desc_rank k) xs"
    by (rule sort_key_stable)
  finally show ?thesis
    by (simp add: nlargest_def desc_rank_inj)
qed

lemma top_demand_products_eq:
  assumes "rows df \<noteq> []"
  shows "\<exists>ins. fst (get_insights df) = Inr ins
           \<and> top_demand_products ins =
               map (\<lambda>r. \<lparr>product_id_t = product_id r, name_t = name r,
                          demand_ratio_t = demand_ratio r\<rparr>)
                 (nlargest 10 demand_ratio (rows df))"
proof -
  let ?z = "map (\<lambda>r. (r, demand_ratio r)) (rows df)"
  have z: "zip (rows df) (map demand_ratio (rows df)) = ?z"
    by (induction "rows df") (simp_all add: zip_map2 zip_same_conv_map)
  have s: "sort_key (\<lambda>x. desc_rank (snd x)) (map (\<lambda>r. (r, demand_ratio r)) xs)
             = map (\<lambda>r. (r, demand_ratio r)) (sort_key (\<lambda>r. desc_rank (demand_ratio r)) xs)"
    for xs :: "product list"
  proof (induction xs)
    case Nil
    show ?case by simp
  next
    case (Cons x xs)
    have i: "insort_key (\<lambda>x. desc_rank (snd x)) (x, demand_ratio x)
               (map (\<lambda>r. (r, demand_ratio r)) ys)
             = map (\<lambda>r. (r, demand_ratio r))
                 (insort_key (\<lambda>r. desc_rank (demand_ratio r)) x ys)" for ys
      by (induction ys) simp_all
    from Cons show ?case by (simp add: i)
  qed
  have "nlargest 10 snd ?z = map (\<lambda>r. (r, demand_ratio r)) (nlargest 10 demand_ratio (rows df))"
    by (simp add: nlargest_def s take_map)
  with assms show ?thesis
    by (simp add: get_insights_def Let_def z demand_ratio_def [symmetric] comp_def)
qed

text \<open>
  C7: on a table in which every \<open>stock + 1\<close> is nonzero (so that every demand ratio is
  a number), the call returns a payload whose list \<open>top_demand_products\<close> has at most
  10 entries, is in descending order of \<open>demand_ratio = sales_7 / (stock + 1)\<close>, and
  for every value \<open>k\<close> its entries with ratio \<open>k\<close> are an initial part of the table's
  rows with ratio \<open>k\<close>, in table order. The table without rows is the one exception:
  there the call raises \<open>TypeError\<close> and returns no list.
\<close>

theorem top_demand_sorted:
  assumes "\<forall>r \<in> set (rows df). stock r + 1 \<noteq> 0"
  shows "if rows df = [] then fst (get_insights df) = Inl TypeError
         else (\<exists>ins. fst (get_insights df) = Inr ins
                \<and> length (top_demand_products ins) \<le> 10
                \<and> sorted_wrt (\<lambda>a b. fle (demand_ratio_t b) (demand_ratio_t a))
                     (top_demand_products ins)
                \<and> (\<forall>k. prefix
                       (filter (\<lambda>e. demand_ratio_t e = k) (top_demand_products ins))
                       (map (\<lambda>r. \<lparr>product_id_t = product_id r, name_t = name r,
                                  demand_ratio_t = demand_ratio r\<rparr>)
                          (filter (\<lambda>r. demand_ratio r = k) (rows df)))))"
proof (cases "rows df = []")
  case True
  then show ?thesis by (simp add: get_insights_def Let_def)
next
  case False
  let ?e = "\<lambda>r. \<lparr>product_id_t = product_id r, name_t = name r,
                  demand_ratio_t = demand_ratio r\<rparr>"
  let ?n = "nlargest 10 demand_ratio (rows df)"
  from top_demand_products_eq [OF False]
  obtain ins where ins: "fst (get_insights df) = Inr ins"
    and top: "top_demand_products ins = map ?e ?n"
    by blast
  have len: "length (map ?e ?n) \<le> 10"
    using nlargest_length [of 10 demand_ratio "rows df"] by simp
  have "demand_ratio r \<noteq> NaN" if "r \<in> set (rows df)" for r
  proof -
    from assms that have "stock r + 1 \<noteq> 0" by blast
    then show ?thesis by (simp add: demand_ratio_def fword_def fint_def signed_eq_0_iff)
  qed
  then have "\<forall>r \<in> set (rows df). demand_ratio r \<noteq> NaN" by blast
  then have "sorted_wrt (\<lambda>a b. fle (demand_ratio b) (demand_ratio a)) ?n"
    by (rule nlargest_sorted)
  then have srt: "sorted_wrt (\<lambda>a b. fle (demand_ratio_t b) (demand_ratio_t a)) (map ?e ?n)"
    by (simp add: sorted_wrt_map)
  have ties: "prefix (filter (\<lambda>e. demand_ratio_t e = k) (map ?e ?n))
                (map ?e (filter (\<lambda>r. demand_ratio r = k) (rows df)))" for k
  proof -
    have "prefix (filter (\<lambda>r. demand_ratio r = k) ?n)
                 (filter (\<lambda>r. demand_ratio r = k) (rows df))"
      by (rule nlargest_ties)
    then have "prefix (map ?e (filter (\<lambda>r. demand_ratio r = k) ?n))
                 (map ?e (filter (\<lambda>r. demand_ratio r = k) (rows df)))"
      by (rule map_mono_prefix)
    then show ?thesis by (simp add: filter_map comp_def)
  qed
  from ins len srt ties have "\<exists>ins. fst (get_insights df) = Inr ins
                \<and> length (top_demand_products ins) \<le> 10
                \<and> sorted_wrt (\<lambda>a b. fle (demand_ratio_t b) (demand_ratio_t a))
                     (top_demand_products ins)
                \<and> (\<forall>k. prefix
                       (filter (\<lambda>e. demand_ratio_t e = k) (top_demand_products ins))
                       (map ?e (filter (\<lambda>r. demand_ratio r = k) (rows df))))"
    unfolding top [symmetric] by blast
  with False show ?thesis by simp
qed

theorem top_demand_sorted_witness:
  "\<exists>ins. fst (get_insights tie_df) = Inr ins
     \<and> top_demand_products ins
         = [\<lparr>product_id_t = 2, name_t = ''Jam'', demand_ratio_t = Num 5\<rparr>,
            \<lparr>product_id_t = 1, name_t = ''Tea'', demand_ratio_t = Num 1\<rparr>,
            \<lparr>product_id_t = 3, name_t = ''Oil'', demand_ratio_t = Num 1\<rparr>]
     \<and> length (top_demand_products ins) \<le> 10
     \<and> sorted_wrt (\<lambda>a b. fle (demand_ratio_t b) (demand_ratio_t a))
          (top_demand_products ins)
     \<and> prefix
          (filter (\<lambda>e. demand_ratio_t e = Num 1) (top_demand_products ins))
          (map (\<lambda>r. \<lparr>product_id_t = product_id r, name_t = name r,
                     demand_ratio_t = demand_ratio r\<rparr>)
             (filter (\<lambda>r. demand_ratio r = Num 1) (rows tie_df)))"
proof -
  have h1: "\<forall>r \<in> set (rows tie_df). stock r + 1 \<noteq> 0"
    by (simp add: tie_df_def)
  have h2: "rows tie_df \<noteq> []"
    by (simp add: tie_df_def)
  have v: "map_sum id top_demand_products (fst (get_insights tie_df))
       = Inr [\<lparr>product_id_t = 2, name_t = ''Jam'', demand_ratio_t = Num 5\<rparr>,
              \<lparr>product_id_t = 1, name_t = ''Tea'', demand_ratio_t = Num 1\<rparr>,
              \<lparr>product_id_t = 3, name_t = ''Oil'', demand_ratio_t = Num 1\<rparr>]"
    by (simp add: get_insights_def tie_df_def Let_def nlargest_def fword_def fint_def)
  from top_demand_sorted [OF h1] h2 obtain ins
    where a: "fst (get_insights tie_df) = Inr ins"
      and b: "length (top_demand_products ins) \<le> 10"
      and c: "sorted_wrt (\<lambda>a b. fle (demand_ratio_t b) (demand_ratio_t a))
                (top_demand_products ins)"
      and d: "\<forall>k. prefix
                (filter (\<lambda>e. demand_ratio_t e = k) (top_demand_products ins))
                (map (\<lambda>r. \<lparr>product_id_t = product_id r, name_t = name r,
                           demand_ratio_t = demand_ratio r\<rparr>)
                   (filter (\<lambda>r. demand_ratio r = k) (rows tie_df)))"
    by (simp only: if_False) blast
  from v a have e: "top_demand_products ins
         = [\<lparr>product_id_t = 2, name_t = ''Jam'', demand_ratio_t = Num 5\<rparr>,
            \<lparr>product_id_t = 1, name_t = ''Tea'', demand_ratio_t = Num 1\<rparr>,
            \<lparr>product_id_t = 3, name_t = ''Oil'', demand_ratio_t = Num 1\<rparr>]"
    by simp
  from d have "prefix
          (filter (\<lambda>e. demand_ratio_t e = Num 1) (top_demand_products ins))
          (map (\<lambda>r. \<lparr>product_id_t = product_id r, name_t = name r,
                     demand_ratio_t = demand_ratio r\<rparr>)
             (filter (\<lambda>r. demand_ratio r = Num 1) (rows tie_df)))"
    by (rule spec)
  with a b c e show ?thesis by blast
qed

end
